theory Spec2Isabelle
  imports Main "HOL-Library.Sublist"
begin

text \<open>
  A shallow embedding of the pull-request script: the module top level that loads the
  configuration, the four helper functions, and \<open>run\<close>. The process is a function from
  the world it runs in to the way it ends and the list of outbound calls it made.
  Left out: the installation of missing packages (lines 7 to 19), everything printed,
  and lines 35 to 36, which build the client object of the generation service and are
  taken to send nothing.
\<close>

section \<open>Python values\<close>

text \<open>
  A Python \<open>str\<close> is a sequence of Unicode code points: \<open>len\<close> counts code points and
  slicing cuts between them. A string is therefore a list of code points (natural
  numbers), not of bytes. \<open>ascii\<close> reads an ASCII literal as such a string.
\<close>

type_synonym ustr = "nat list"

definition ascii :: "string \<Rightarrow> ustr" where
  "ascii s = map of_char s"

text \<open>What \<open>json.loads\<close> returns: \<open>None\<close>, \<open>bool\<close>, \<open>int\<close>, \<open>float\<close>, \<open>str\<close>, \<open>list\<close>
  or \<open>dict\<close> with string keys. No branch of the program looks into a float.\<close>

typedecl pyfloat

datatype json =
    JNull
  | JBool bool
  | JInt int
  | JFloat pyfloat
  | JStr ustr
  | JList "json list"
  | JObj "(ustr \<times> json) list"

datatype py_exception =
    KeyError ustr
  | TypeError
  | AttributeError
  | RequestException ustr

text \<open>\<open>obj[k]\<close> with a string key: a dict looks the key up and raises \<open>KeyError\<close> when it
  is absent; every other JSON value raises \<open>TypeError\<close>.\<close>

fun subscript :: "json \<Rightarrow> ustr \<Rightarrow> py_exception + json" where
  "subscript (JObj kvs) k = (case map_of kvs k of None \<Rightarrow> Inl (KeyError k) | Some v \<Rightarrow> Inr v)"
| "subscript _ k = Inl TypeError"

text \<open>\<open>k in obj\<close> with a string \<open>k\<close>: key membership for a dict, element membership for a
  list, substring search for a str, \<open>TypeError\<close> for the values that are not containers.\<close>

fun py_in :: "ustr \<Rightarrow> json \<Rightarrow> py_exception + bool" where
  "py_in k (JObj kvs) = Inr (map_of kvs k \<noteq> None)"
| "py_in k (JList xs) = Inr (JStr k \<in> set xs)"
| "py_in k (JStr s) = Inr (sublist k s)"
| "py_in k _ = Inl TypeError"

text \<open>\<open>obj.get(k)\<close>: only a dict has the method; an absent key gives \<open>None\<close>.\<close>

fun py_get :: "json \<Rightarrow> ustr \<Rightarrow> py_exception + json" where
  "py_get (JObj kvs) k = Inr (case map_of kvs k of None \<Rightarrow> JNull | Some v \<Rightarrow> v)"
| "py_get _ k = Inl AttributeError"

text \<open>\<open>not v\<close> for a value that is \<open>None\<close> or a str.\<close>

definition falsy :: "ustr option \<Rightarrow> bool" where
  "falsy v = (case v of None \<Rightarrow> True | Some s \<Rightarrow> s = [])"

text \<open>\<open>str.isspace\<close> on one code point (CPython's table of Unicode whitespace), and
  \<open>str.strip()\<close>, which removes such code points at both ends.\<close>

definition py_isspace :: "nat \<Rightarrow> bool" where
  "py_isspace c =
     (c \<in> {9, 10, 11, 12, 13, 28, 29, 30, 31, 32, 133, 160, 5760, 8232, 8233, 8239, 8287, 12288}
      \<or> (8192 \<le> c \<and> c \<le> 8202))"

definition py_strip :: "ustr \<Rightarrow> ustr" where
  "py_strip s = rev (dropWhile py_isspace (rev (dropWhile py_isspace s)))"

section \<open>The world outside the process\<close>

record response =
  status_code :: int
  text_of :: ustr

text \<open>
  Everything the script reads from outside is a field of \<open>world\<close>:
  the environment (\<open>os.environ.get\<close>), the JSON decoder (\<open>None\<close> stands for
  \<open>JSONDecodeError\<close>), the two HTTP verbs of \<open>requests\<close> (which may raise instead of
  answering), the generation service (\<open>Inl d\<close>: \<open>generate_content\<close> or the \<open>.text\<close>
  accessor raised an \<open>Exception\<close> whose \<open>str\<close> is \<open>d\<close>; \<open>Inr t\<close>: the response text),
  and Python's rendering of a non-string value inside an f-string.
\<close>

record world =
  environ :: "ustr \<Rightarrow> ustr option"
  json_loads :: "ustr \<Rightarrow> json option"
  requests_get :: "json \<Rightarrow> (ustr \<times> ustr) list \<Rightarrow> py_exception + response"
  requests_post :: "json \<Rightarrow> (ustr \<times> json) list \<Rightarrow> (ustr \<times> ustr) list \<Rightarrow> py_exception option"
  generate_content :: "ustr \<Rightarrow> ustr + ustr"
  format_value :: "json \<Rightarrow> ustr"

text \<open>The outbound calls a run makes, in order.\<close>

datatype call =
    HttpGet json "(ustr \<times> ustr) list"
  | HttpPost json "(ustr \<times> json) list" "(ustr \<times> ustr) list"
  | GenerateContent ustr

text \<open>
  A piece of the script either goes on with a value, returns from \<open>run\<close>, or raises;
  beside that it has made some calls.
\<close>

datatype 'a flow = Next 'a | Return | Raise py_exception

type_synonym 'a eff = "'a flow \<times> call list"

definition bind :: "'a eff \<Rightarrow> ('a \<Rightarrow> 'b eff) \<Rightarrow> 'b eff" where
  "bind m f =
     (case m of
        (Next a, t) \<Rightarrow> (case f a of (r, t') \<Rightarrow> (r, t @ t'))
      | (Return, t) \<Rightarrow> (Return, t)
      | (Raise e, t) \<Rightarrow> (Raise e, t))"

definition lift :: "py_exception + 'a \<Rightarrow> 'a eff" where
  "lift r = (case r of Inl e \<Rightarrow> (Raise e, []) | Inr v \<Rightarrow> (Next v, []))"

section \<open>Configuration (module top level, lines 22 to 32)\<close>

record config =
  payload :: json
  GITHUB_TOKEN :: ustr
  GOOGLE_API_KEY :: ustr

text \<open>\<open>Inl n\<close> is \<open>sys.exit(n)\<close>.\<close>

definition load_configuration :: "world \<Rightarrow> nat + config" where
  "load_configuration w =
     (case environ w (ascii ''GITHUB_PAYLOAD'') of
        None \<Rightarrow> Inl 1
      | Some payload_json \<Rightarrow>
          if payload_json = [] then Inl 1
          else (case json_loads w payload_json of
                  None \<Rightarrow> Inl 1
                | Some p \<Rightarrow>
                    (let token = environ w (ascii ''GITHUB_TOKEN'');
                         key = environ w (ascii ''GOOGLE_API_KEY'')
                     in if falsy token \<or> falsy key then Inl 1
                        else (case (token, key) of
                                (Some tk, Some ky) \<Rightarrow>
                                  Inr \<lparr>payload = p, GITHUB_TOKEN = tk, GOOGLE_API_KEY = ky\<rparr>
                              | _ \<Rightarrow> Inl 1))))"

section \<open>Helper functions (lines 40 to 79)\<close>

definition attribution :: ustr where
  "attribution = [10, 10] @ ascii ''_'' @ [0x2014] @ ascii '' Reviewed by OS-Maintainer Bot ''
                 @ [0x1F916] @ ascii ''_''"

definition json_headers :: "config \<Rightarrow> (ustr \<times> ustr) list" where
  "json_headers cfg =
     [(ascii ''Authorization'', ascii ''token '' @ GITHUB_TOKEN cfg),
      (ascii ''Accept'', ascii ''application/vnd.github.v3+json'')]"

definition post_comment :: "world \<Rightarrow> config \<Rightarrow> json \<Rightarrow> ustr \<Rightarrow> unit eff" where
  "post_comment w cfg comments_url body =
     (let headers = json_headers cfg;
          final_body = body @ attribution;
          data = [(ascii ''body'', JStr final_body)]
      in (case requests_post w comments_url data headers of
            Some e \<Rightarrow> Raise e
          | None \<Rightarrow> Next (),
          [HttpPost comments_url data headers]))"

definition status_data :: "world \<Rightarrow> ustr \<Rightarrow> ustr \<Rightarrow> (ustr \<times> json) list" where
  "status_data w state description =
     [(ascii ''state'', JStr state),
      (ascii ''target_url'',
         (case environ w (ascii ''KESTRA_EXECUTION_URL'') of None \<Rightarrow> JNull | Some u \<Rightarrow> JStr u)),
      (ascii ''description'', JStr description),
      (ascii ''context'', JStr (ascii ''OS-Maintainer / AI-Reviewer''))]"

definition update_pr_status :: "world \<Rightarrow> config \<Rightarrow> json \<Rightarrow> ustr \<Rightarrow> ustr \<Rightarrow> unit eff" where
  "update_pr_status w cfg status_url state description =
     (let headers = json_headers cfg;
          data = status_data w state description
      in (case requests_post w status_url data headers of
            Some e \<Rightarrow> Raise e
          | None \<Rightarrow> Next (),
          [HttpPost status_url data headers]))"

definition diff_headers :: "config \<Rightarrow> (ustr \<times> ustr) list" where
  "diff_headers cfg =
     [(ascii ''Authorization'', ascii ''token '' @ GITHUB_TOKEN cfg),
      (ascii ''Accept'', ascii ''application/vnd.github.v3.diff'')]"

definition get_pr_diff :: "world \<Rightarrow> config \<Rightarrow> json \<Rightarrow> ustr option eff" where
  "get_pr_diff w cfg diff_url =
     (let headers = diff_headers cfg
      in (case requests_get w diff_url headers of
            Inl e \<Rightarrow> Raise e
          | Inr resp \<Rightarrow> Next (if status_code resp = 200 then Some (text_of resp) else None),
          [HttpGet diff_url headers]))"

definition APPROVE :: ustr where
  "APPROVE = [0x2705] @ ascii '' **APPROVE**''"

definition REQUEST_CHANGES :: ustr where
  "REQUEST_CHANGES = [0x26A0, 0xFE0F] @ ascii '' **REQUEST CHANGES**''"

definition truncation_notice :: ustr where
  "truncation_notice = [10] @ ascii ''... (Diff truncated)''"

text \<open>A replacement field of an f-string: a str stands for itself.\<close>

definition fstr :: "world \<Rightarrow> json \<Rightarrow> ustr" where
  "fstr w v = (case v of JStr s \<Rightarrow> s | _ \<Rightarrow> format_value w v)"

text \<open>The f-string of lines 68 to 73, cut at its three replacement fields.\<close>

definition prompt_head :: ustr where
  "prompt_head = [10] @ ascii ''    You are '' @ [39] @ ascii ''OS-Maintainer'' @ [39]
     @ ascii '', an expert Senior Software Engineer.'' @ [10]
     @ ascii ''    Review PR from @''"

definition prompt_tail :: ustr where
  "prompt_tail = [96, 96, 96, 10] @ ascii ''    '' @ [10]
     @ ascii ''    Instructions: 1. Check for **Security Leaks** and **Logic Bugs**. 2. Be helpful. 3. Verdict: End with either ''
     @ [39] @ APPROVE @ [39] @ ascii '' or '' @ [39] @ REQUEST_CHANGES @ [39] @ ascii ''.''
     @ [10] @ ascii ''    ''"

definition make_prompt :: "ustr \<Rightarrow> ustr \<Rightarrow> ustr \<Rightarrow> ustr" where
  "make_prompt user pr_title diff_text =
     prompt_head @ user @ ascii ''. Title: '' @ pr_title @ ascii ''. Code: ''
     @ [96, 96, 96] @ ascii ''diff '' @ diff_text @ prompt_tail"

definition ai_error :: "ustr \<Rightarrow> ustr" where
  "ai_error e = [0x26A0, 0xFE0F]
     @ ascii '' **AI Error:** Could not analyze code. The model failed to respond. (''
     @ e @ ascii '')''"

definition analyze_code_with_gemini :: "world \<Rightarrow> ustr \<Rightarrow> json \<Rightarrow> json \<Rightarrow> ustr eff" where
  "analyze_code_with_gemini w diff_text pr_title user =
     (let diff_text' = (if length diff_text > 30000
                        then take 30000 diff_text @ truncation_notice
                        else diff_text);
          prompt = make_prompt (fstr w user) (fstr w pr_title) diff_text'
      in (Next (case generate_content w prompt of
                  Inr t \<Rightarrow> t
                | Inl e \<Rightarrow> ai_error e),
          [GenerateContent prompt]))"

section \<open>Main execution flow (lines 82 to 120)\<close>

definition allowed_actions :: "json list" where
  "allowed_actions = [JStr (ascii ''opened''), JStr (ascii ''reopened''), JStr (ascii ''synchronize'')]"

definition run :: "world \<Rightarrow> config \<Rightarrow> unit eff" where
  "run w cfg =
     bind (lift (py_in (ascii ''pull_request'') (payload cfg))) (\<lambda>has_pr.
     if \<not> has_pr then (Return, []) else
     bind (lift (py_get (payload cfg) (ascii ''action''))) (\<lambda>action.
     if action \<notin> set allowed_actions then (Return, []) else
     bind (lift (subscript (payload cfg) (ascii ''pull_request''))) (\<lambda>pr.
     bind (lift (subscript pr (ascii ''diff_url''))) (\<lambda>diff_url.
     bind (lift (subscript pr (ascii ''comments_url''))) (\<lambda>comments_url.
     bind (lift (subscript pr (ascii ''statuses_url''))) (\<lambda>statuses_url.
     bind (get_pr_diff w cfg diff_url) (\<lambda>code_diff.
     (case code_diff of
        None \<Rightarrow> (Return, [])
      | Some d \<Rightarrow>
          if d = [] \<or> py_strip d = [] then (Return, []) else
          bind (lift (subscript pr (ascii ''title''))) (\<lambda>title.
          bind (lift (subscript pr (ascii ''user''))) (\<lambda>user.
          bind (lift (subscript user (ascii ''login''))) (\<lambda>login.
          bind (analyze_code_with_gemini w d title login) (\<lambda>review.
          bind (post_comment w cfg comments_url review) (\<lambda>_.
          if sublist REQUEST_CHANGES review then
            update_pr_status w cfg statuses_url (ascii ''failure'')
              (ascii ''AI Review failed: Changes Requested.'')
          else if sublist APPROVE review then
            update_pr_status w cfg statuses_url (ascii ''success'')
              (ascii ''AI Review passed successfully.'')
          else
            update_pr_status w cfg statuses_url (ascii ''error'')
              (ascii ''AI Review was inconclusive.''))))))))))))))"

text \<open>How the process ends: an exit status asked for, or an exception nobody caught
  (the interpreter prints the traceback and exits with status 1).\<close>

datatype outcome = Exit nat | Uncaught py_exception

fun exit_status :: "outcome \<Rightarrow> nat" where
  "exit_status (Exit n) = n"
| "exit_status (Uncaught e) = 1"

definition main :: "world \<Rightarrow> outcome \<times> call list" where
  "main w =
     (case load_configuration w of
        Inl n \<Rightarrow> (Exit n, [])
      | Inr cfg \<Rightarrow>
          (case run w cfg of
             (Raise e, t) \<Rightarrow> (Uncaught e, t)
           | (_, t) \<Rightarrow> (Exit 0, t)))"

section \<open>The verdict\<close>

text \<open>The three branches of lines 109 to 117, named as the script's own messages
  name them.\<close>

datatype verdict = ChangesRequested | Approved | Inconclusive

definition classify :: "ustr \<Rightarrow> verdict" where
  "classify review =
     (if sublist REQUEST_CHANGES review then ChangesRequested
      else if sublist APPROVE review then Approved
      else Inconclusive)"


section \<open>Stages of \<open>run\<close>\<close>

text \<open>
  Prefixes of the body of \<open>run\<close>, named so that a statement can say how far a run got:
  \<open>pr_details\<close> is lines 86 to 94 (validation and the three endpoints), and
  \<open>review_inputs\<close> is lines 97 to 98 with the arguments of the call on line 102.
\<close>

definition pr_details :: "config \<Rightarrow> (json \<times> json \<times> json \<times> json) eff" where
  "pr_details cfg =
     bind (lift (py_in (ascii ''pull_request'') (payload cfg))) (\<lambda>has_pr.
     if \<not> has_pr then (Return, []) else
     bind (lift (py_get (payload cfg) (ascii ''action''))) (\<lambda>action.
     if action \<notin> set allowed_actions then (Return, []) else
     bind (lift (subscript (payload cfg) (ascii ''pull_request''))) (\<lambda>pr.
     bind (lift (subscript pr (ascii ''diff_url''))) (\<lambda>diff_url.
     bind (lift (subscript pr (ascii ''comments_url''))) (\<lambda>comments_url.
     bind (lift (subscript pr (ascii ''statuses_url''))) (\<lambda>statuses_url.
     (Next (pr, diff_url, comments_url, statuses_url), [])))))))"

definition review_inputs :: "world \<Rightarrow> config \<Rightarrow> json \<Rightarrow> json \<Rightarrow> (ustr \<times> json \<times> json) eff" where
  "review_inputs w cfg pr diff_url =
     bind (get_pr_diff w cfg diff_url) (\<lambda>code_diff.
     (case code_diff of
        None \<Rightarrow> (Return, [])
      | Some d \<Rightarrow>
          if d = [] \<or> py_strip d = [] then (Return, []) else
          bind (lift (subscript pr (ascii ''title''))) (\<lambda>title.
          bind (lift (subscript pr (ascii ''user''))) (\<lambda>user.
          bind (lift (subscript user (ascii ''login''))) (\<lambda>login.
          (Next (d, title, login), []))))))"

text \<open>The state and the description that the branch of each verdict passes to
  \<open>update_pr_status\<close>.\<close>

fun status_of :: "verdict \<Rightarrow> ustr \<times> ustr" where
  "status_of ChangesRequested = (ascii ''failure'', ascii ''AI Review failed: Changes Requested.'')"
| "status_of Approved = (ascii ''success'', ascii ''AI Review passed successfully.'')"
| "status_of Inconclusive = (ascii ''error'', ascii ''AI Review was inconclusive.'')"

section \<open>A concrete pull request\<close>

text \<open>
  One small event and one small world, on which the theorems below are exercised:
  an event for pull request 1, an environment holding the payload and both credentials,
  a host that answers every diff request with the given status and body and accepts
  every POST, and a generation service that answers every prompt with \<open>gen\<close>.
\<close>

definition demo_pr :: json where
  "demo_pr = JObj [(ascii ''diff_url'', JStr (ascii ''https://h/pr/1.diff'')),
                   (ascii ''comments_url'', JStr (ascii ''https://h/pr/1/comments'')),
                   (ascii ''statuses_url'', JStr (ascii ''https://h/statuses/abc'')),
                   (ascii ''title'', JStr (ascii ''Fix'')),
                   (ascii ''user'', JObj [(ascii ''login'', JStr (ascii ''dev''))])]"

definition demo_event :: "ustr \<Rightarrow> json" where
  "demo_event action = JObj [(ascii ''action'', JStr action), (ascii ''pull_request'', demo_pr)]"

definition demo_opened :: json where
  "demo_opened = demo_event (ascii ''opened'')"

definition demo_no_comments_url :: json where
  "demo_no_comments_url =
     JObj [(ascii ''action'', JStr (ascii ''synchronize'')),
           (ascii ''pull_request'',
              JObj [(ascii ''diff_url'', JStr (ascii ''https://h/pr/1.diff'')),
                    (ascii ''statuses_url'', JStr (ascii ''https://h/statuses/abc''))])]"

definition demo_diff :: ustr where
  "demo_diff = ascii ''+x = 1''"

definition demo_world :: "json \<Rightarrow> int \<Rightarrow> ustr \<Rightarrow> ustr + ustr \<Rightarrow> world" where
  "demo_world ev code diff gen =
     \<lparr>environ = map_of [(ascii ''GITHUB_PAYLOAD'', ascii ''<event>''),
                        (ascii ''GITHUB_TOKEN'', ascii ''t0''),
                        (ascii ''GOOGLE_API_KEY'', ascii ''k0'')],
      json_loads = (\<lambda>s. if s = ascii ''<event>'' then Some ev else None),
      requests_get = (\<lambda>url headers. Inr \<lparr>status_code = code, text_of = diff\<rparr>),
      requests_post = (\<lambda>url data headers. None),
      generate_content = (\<lambda>prompt. gen),
      format_value = (\<lambda>v. [])\<rparr>"

definition demo_world_post_fails :: "ustr + ustr \<Rightarrow> world" where
  "demo_world_post_fails gen =
     (demo_world demo_opened 200 demo_diff gen)
       \<lparr>requests_post := (\<lambda>url data headers. Some (RequestException (ascii ''connection reset'')))\<rparr>"

definition demo_config :: "json \<Rightarrow> config" where
  "demo_config ev = \<lparr>payload = ev, GITHUB_TOKEN = ascii ''t0'', GOOGLE_API_KEY = ascii ''k0''\<rparr>"

section \<open>Properties of the building blocks\<close>

lemma ascii_eq_iff [simp]: "ascii a = ascii b \<longleftrightarrow> a = b"
  by (simp add: ascii_def inj_map_eq_map [OF inj_of_char])

lemma ascii_Nil_iff [simp]: "ascii a = [] \<longleftrightarrow> a = []" "[] = ascii a \<longleftrightarrow> a = []"
  by (auto simp add: ascii_def)

lemma bind_Next [simp]: "bind (Next a, t) f = (fst (f a), t @ snd (f a))"
  by (simp add: bind_def split: prod.splits)

lemma bind_pure [simp]: "bind (Next a, []) f = f a"
  by (simp add: bind_def split: prod.splits)

lemma bind_Return [simp]: "bind (Return, t) f = (Return, t)"
  by (simp add: bind_def)

lemma bind_Raise [simp]: "bind (Raise e, t) f = (Raise e, t)"
  by (simp add: bind_def)

lemma lift_Inr [simp]: "lift (Inr v) = (Next v, [])"
  by (simp add: lift_def)

lemma lift_Inl [simp]: "lift (Inl e) = (Raise e, [])"
  by (simp add: lift_def)

lemma bind_lift: "bind (lift r) f = (case r of Inl e \<Rightarrow> (Raise e, []) | Inr v \<Rightarrow> f v)"
  by (cases r) simp_all

lemma bind_assoc: "bind (bind m f) g = bind m (\<lambda>x. bind (f x) g)"
  by (cases m; cases "fst m") (auto simp: bind_def split: prod.splits flow.splits)

lemma bind_if: "bind (if c then m else n) f = (if c then bind m f else bind n f)"
  by simp

lemma bind_case_option:
  "bind (case x of None \<Rightarrow> m | Some d \<Rightarrow> n d) f =
     (case x of None \<Rightarrow> bind m f | Some d \<Rightarrow> bind (n d) f)"
  by (cases x) simp_all

text \<open>\<open>strip()\<close> leaves nothing exactly when every code point is whitespace.\<close>

lemma py_strip_Nil_iff: "py_strip s = [] \<longleftrightarrow> (\<forall>c\<in>set s. py_isspace c)"
proof
  assume "py_strip s = []"
  then have "\<forall>c\<in>set (dropWhile py_isspace s). py_isspace c"
    by (simp add: py_strip_def)
  then have "dropWhile py_isspace s = []"
    using hd_dropWhile [of py_isspace s] hd_in_set [of "dropWhile py_isspace s"] by blast
  then show "\<forall>c\<in>set s. py_isspace c"
    by simp
next
  assume "\<forall>c\<in>set s. py_isspace c"
  then have "dropWhile py_isspace s = []"
    by (induction s) simp_all
  then show "py_strip s = []"
    by (simp only: py_strip_def rev.simps dropWhile.simps)
qed

subsection \<open>The helper functions, one call each\<close>

lemma get_pr_diff_eq:
  "get_pr_diff w cfg u =
     (case requests_get w u (diff_headers cfg) of
        Inl e \<Rightarrow> Raise e
      | Inr resp \<Rightarrow> Next (if status_code resp = 200 then Some (text_of resp) else None),
      [HttpGet u (diff_headers cfg)])"
  by (simp add: get_pr_diff_def Let_def)

lemma analyze_eq:
  "analyze_code_with_gemini w d title login =
     (Next (case generate_content w (make_prompt (fstr w login) (fstr w title)
                   (if 30000 < length d then take 30000 d @ truncation_notice else d)) of
              Inr t \<Rightarrow> t | Inl e \<Rightarrow> ai_error e),
      [GenerateContent (make_prompt (fstr w login) (fstr w title)
                   (if 30000 < length d then take 30000 d @ truncation_notice else d))])"
  by (simp add: analyze_code_with_gemini_def Let_def)

lemma post_comment_eq:
  "post_comment w cfg cu review =
     (case requests_post w cu [(ascii ''body'', JStr (review @ attribution))] (json_headers cfg) of
        Some e \<Rightarrow> Raise e
      | None \<Rightarrow> Next (),
      [HttpPost cu [(ascii ''body'', JStr (review @ attribution))] (json_headers cfg)])"
  by (simp add: post_comment_def Let_def)

lemma post_comment_trace:
  "snd (post_comment w cfg cu review) =
     [HttpPost cu [(ascii ''body'', JStr (review @ attribution))] (json_headers cfg)]"
  by (simp add: post_comment_eq)

lemma update_pr_status_trace:
  "snd (update_pr_status w cfg su st de) = [HttpPost su (status_data w st de) (json_headers cfg)]"
  by (simp add: update_pr_status_def Let_def)

lemma status_data_no_body: "map_of (status_data w st de) (ascii ''body'') = None"
  by (simp add: status_data_def)

subsection \<open>The stages make up \<open>run\<close>\<close>

lemma verdict_branches:
  "(if sublist REQUEST_CHANGES review then
      update_pr_status w cfg statuses_url (ascii ''failure'')
        (ascii ''AI Review failed: Changes Requested.'')
    else if sublist APPROVE review then
      update_pr_status w cfg statuses_url (ascii ''success'')
        (ascii ''AI Review passed successfully.'')
    else
      update_pr_status w cfg statuses_url (ascii ''error'')
        (ascii ''AI Review was inconclusive.''))
   = update_pr_status w cfg statuses_url (fst (status_of (classify review)))
       (snd (status_of (classify review)))"
  by (simp add: classify_def)

lemma run_stages:
  "run w cfg =
     bind (pr_details cfg) (\<lambda>(pr, diff_url, comments_url, statuses_url).
     bind (review_inputs w cfg pr diff_url) (\<lambda>(d, title, login).
     bind (analyze_code_with_gemini w d title login) (\<lambda>review.
     bind (post_comment w cfg comments_url review) (\<lambda>_.
     update_pr_status w cfg statuses_url (fst (status_of (classify review)))
       (snd (status_of (classify review)))))))"
  unfolding run_def pr_details_def review_inputs_def
  by (simp only: verdict_branches bind_assoc bind_if bind_case_option bind_pure bind_Return
        fst_conv snd_conv append_Nil append_Nil2 prod.case cong: if_cong option.case_cong)

lemma pr_details_trace: "snd (pr_details cfg) = []"
  by (simp add: pr_details_def bind_lift split: sum.splits)

lemma pr_details_Next:
  assumes "pr_details cfg = (Next (pr, du, cu, su), t)"
  shows "subscript (payload cfg) (ascii ''pull_request'') = Inr pr
       \<and> subscript pr (ascii ''diff_url'') = Inr du
       \<and> subscript pr (ascii ''comments_url'') = Inr cu
       \<and> subscript pr (ascii ''statuses_url'') = Inr su"
  using assms by (simp add: pr_details_def bind_lift split: sum.splits if_splits)

lemma review_inputs_trace: "snd (review_inputs w cfg pr du) = [HttpGet du (diff_headers cfg)]"
  by (cases "requests_get w du (diff_headers cfg)")
     (simp_all add: review_inputs_def get_pr_diff_eq bind_lift split: sum.splits)

lemma review_inputs_no_diff:
  assumes "requests_get w du (diff_headers cfg) = Inr resp"
    and "status_code resp \<noteq> 200 \<or> (\<forall>c\<in>set (text_of resp). py_isspace c)"
  shows "review_inputs w cfg pr du = (Return, [HttpGet du (diff_headers cfg)])"
  using assms by (auto simp add: review_inputs_def get_pr_diff_eq py_strip_Nil_iff)


lemma run_commented:
  assumes "pr_details cfg = (Next (pr, du, cu, su), [])"
    and "review_inputs w cfg pr du = (Next (d, title, login), t)"
    and "analyze_code_with_gemini w d title login = (Next review, ta)"
  shows "snd (run w cfg) =
           t @ ta @ [HttpPost cu [(ascii ''body'', JStr (review @ attribution))] (json_headers cfg)]
           @ (case requests_post w cu [(ascii ''body'', JStr (review @ attribution))] (json_headers cfg) of
                Some e \<Rightarrow> []
              | None \<Rightarrow> [HttpPost su (status_data w (fst (status_of (classify review)))
                                       (snd (status_of (classify review)))) (json_headers cfg)])"
  using assms
  by (simp add: run_stages post_comment_eq update_pr_status_trace split: option.splits)

lemma run_comment_raises:
  assumes "pr_details cfg = (Next (pr, du, cu, su), [])"
    and "review_inputs w cfg pr du = (Next (d, title, login), t)"
    and "analyze_code_with_gemini w d title login = (Next review, ta)"
    and "requests_post w cu [(ascii ''body'', JStr (review @ attribution))] (json_headers cfg) = Some ex"
  shows "run w cfg =
           (Raise ex,
            t @ ta @ [HttpPost cu [(ascii ''body'', JStr (review @ attribution))] (json_headers cfg)])"
  using assms by (simp add: run_stages post_comment_eq)


lemma run_reported:
  assumes "pr_details cfg = (Next (pr, du, cu, su), [])"
    and "review_inputs w cfg pr du = (Next (d, title, login), t)"
    and "analyze_code_with_gemini w d title login = (Next review, ta)"
    and "post_comment w cfg cu review = (Next (), tc)"
  shows "snd (run w cfg) =
           t @ ta @ tc @ [HttpPost su (status_data w (fst (status_of (classify review)))
                                         (snd (status_of (classify review)))) (json_headers cfg)]"
  using assms by (simp add: run_stages update_pr_status_trace)


lemma main_of_run:
  "load_configuration w = Inr cfg \<Longrightarrow> run w cfg = (Return, t) \<Longrightarrow> main w = (Exit 0, t)"
  "load_configuration w = Inr cfg \<Longrightarrow> run w cfg = (Raise e, t) \<Longrightarrow> main w = (Uncaught e, t)"
  "load_configuration w = Inr cfg \<Longrightarrow> run w cfg = (Next u, t) \<Longrightarrow> main w = (Exit 0, t)"
  by (simp_all add: main_def)

subsection \<open>Markers inside the synthesized error text\<close>

lemma sublist_skip_prefix:
  "c \<notin> set ps \<Longrightarrow> sublist (c # n) (ps @ r) \<Longrightarrow> sublist (c # n) r"
  by (induction ps) (auto simp add: sublist_Cons_right)

lemma sublist_drop_last:
  assumes "n \<noteq> []" and "last n \<noteq> d" and "sublist n (r @ [d])"
  shows "sublist n r"
proof -
  obtain ps ss where eq: "r @ [d] = ps @ n @ ss"
    using assms(3) by (auto simp add: sublist_def)
  show ?thesis
  proof (cases ss rule: rev_cases)
    case Nil
    with eq have "last (r @ [d]) = last (ps @ n)" by simp
    with assms(1,2) show ?thesis by simp
  next
    case (snoc ss' x)
    with eq have "r @ [d] = (ps @ n @ ss') @ [x]" by simp
    then have "r = ps @ n @ ss'" by (simp only: append1_eq_conv)
    then show ?thesis by (auto simp add: sublist_def)
  qed
qed

lemma sublist_ai_error_embed: "sublist n e \<Longrightarrow> sublist n (ai_error e)"
proof -
  assume "sublist n e"
  then obtain ps ss where "e = ps @ n @ ss" by (auto simp add: sublist_def)
  then have "ai_error e = ([0x26A0, 0xFE0F]
     @ ascii '' **AI Error:** Could not analyze code. The model failed to respond. ('' @ ps)
     @ n @ (ss @ ascii '')'')"
    by (simp add: ai_error_def)
  then show ?thesis unfolding sublist_def by blast
qed

text \<open>
  The fixed words around the description hold no verdict marker and cannot complete one:
  the only \<open>U+26A0\<close> of the frame is followed by \<open>**AI\<close>, the frame has no \<open>U+2705\<close>,
  and it ends with a parenthesis where both markers end with an asterisk.
\<close>

lemma REQUEST_CHANGES_ai_error:
  "sublist REQUEST_CHANGES (ai_error e) \<longleftrightarrow> sublist REQUEST_CHANGES e"
proof
  assume a: "sublist REQUEST_CHANGES (ai_error e)"
  define P where
    "P = 0xFE0F # ascii '' **AI Error:** Could not analyze code. The model failed to respond. (''"
  have ai: "ai_error e = 0x26A0 # (P @ (e @ [41]))"
    by (simp add: ai_error_def P_def ascii_def)
  have rc: "REQUEST_CHANGES = 0x26A0 # (0xFE0F # ascii '' **REQUEST CHANGES**'')"
    by (simp add: REQUEST_CHANGES_def)
  have np: "\<not> prefix REQUEST_CHANGES (ai_error e)"
    by (simp add: REQUEST_CHANGES_def ai_error_def ascii_def)
  have notin: "(0x26A0::nat) \<notin> set P"
    by (simp add: P_def ascii_def)
  from a np have "sublist REQUEST_CHANGES (P @ (e @ [41]))"
    unfolding ai sublist_Cons_right by blast
  then have s: "sublist REQUEST_CHANGES (e @ [41])"
    unfolding rc using notin by (rule sublist_skip_prefix [rotated])
  have ne: "REQUEST_CHANGES \<noteq> []" and la: "last REQUEST_CHANGES \<noteq> 41"
    by (simp_all add: REQUEST_CHANGES_def ascii_def)
  show "sublist REQUEST_CHANGES e"
    by (rule sublist_drop_last [OF ne la s])
qed (rule sublist_ai_error_embed)

lemma APPROVE_ai_error:
  "sublist APPROVE (ai_error e) \<longleftrightarrow> sublist APPROVE e"
proof
  assume a: "sublist APPROVE (ai_error e)"
  define P where
    "P = [0x26A0, 0xFE0F]
         @ ascii '' **AI Error:** Could not analyze code. The model failed to respond. (''"
  have ai: "ai_error e = P @ (e @ [41])"
    by (simp add: ai_error_def P_def ascii_def)
  have ap: "APPROVE = 0x2705 # ascii '' **APPROVE**''"
    by (simp add: APPROVE_def)
  have notin: "(0x2705::nat) \<notin> set P"
    by (simp add: P_def ascii_def)
  from a have s: "sublist APPROVE (e @ [41])"
    unfolding ai ap using notin by (rule sublist_skip_prefix [rotated])
  have ne: "APPROVE \<noteq> []" and la: "last APPROVE \<noteq> 41"
    by (simp_all add: APPROVE_def ascii_def)
  show "sublist APPROVE e"
    by (rule sublist_drop_last [OF ne la s])
qed (rule sublist_ai_error_embed)

lemma classify_ai_error: "classify (ai_error e) = classify e"
  by (simp add: classify_def REQUEST_CHANGES_ai_error APPROVE_ai_error)

subsection \<open>The concrete pull request, stage by stage\<close>

lemma demo_load: "load_configuration (demo_world ev code diff gen) = Inr (demo_config ev)"
  by (simp add: load_configuration_def demo_world_def demo_config_def falsy_def)

lemma demo_opened_details:
  "pr_details (demo_config demo_opened) =
     (Next (demo_pr, JStr (ascii ''https://h/pr/1.diff''), JStr (ascii ''https://h/pr/1/comments''),
            JStr (ascii ''https://h/statuses/abc'')), [])"
  by (simp add: pr_details_def demo_opened_def demo_config_def demo_event_def demo_pr_def
      allowed_actions_def)

lemma demo_diff_visible: "demo_diff \<noteq> [] \<and> \<not> (\<forall>c\<in>set demo_diff. py_isspace c)"
  by (simp add: demo_diff_def ascii_def py_isspace_def)

lemma demo_get:
  "requests_get (demo_world ev code diff gen) u h = Inr \<lparr>status_code = code, text_of = diff\<rparr>"
  by (simp add: demo_world_def)

lemma demo_inputs:
  "review_inputs (demo_world ev 200 demo_diff gen) cfg demo_pr u =
     (Next (demo_diff, JStr (ascii ''Fix''), JStr (ascii ''dev'')), [HttpGet u (diff_headers cfg)])"
  using demo_diff_visible
  by (simp add: review_inputs_def get_pr_diff_eq demo_world_def demo_pr_def py_strip_Nil_iff)

lemma demo_prompt:
  "make_prompt (fstr w (JStr (ascii ''dev''))) (fstr w (JStr (ascii ''Fix'')))
     (if 30000 < length demo_diff then take 30000 demo_diff @ truncation_notice else demo_diff)
   = make_prompt (ascii ''dev'') (ascii ''Fix'') demo_diff"
  by (simp add: fstr_def demo_diff_def ascii_def)

lemma demo_analyze:
  "analyze_code_with_gemini (demo_world ev code diff gen) demo_diff
       (JStr (ascii ''Fix'')) (JStr (ascii ''dev'')) =
     (Next (case gen of Inr t \<Rightarrow> t | Inl e \<Rightarrow> ai_error e),
      [GenerateContent (make_prompt (ascii ''dev'') (ascii ''Fix'') demo_diff)])"
  by (simp add: analyze_eq demo_prompt) (simp add: demo_world_def)

lemma demo_post:
  "requests_post (demo_world ev code diff gen) u data h = None"
  by (simp add: demo_world_def)

lemma demo_review_approved: "classify (ascii ''Fine. '' @ APPROVE) = Approved"
  by (simp add: classify_def REQUEST_CHANGES_def APPROVE_def ascii_def sublist_code(3))

lemma demo_kestra:
  "environ (demo_world ev code diff gen) (ascii ''KESTRA_EXECUTION_URL'') = None"
  by (simp add: demo_world_def)

lemma demo_post_comment:
  "post_comment (demo_world ev code diff gen) cfg cu review =
     (Next (), [HttpPost cu [(ascii ''body'', JStr (review @ attribution))] (json_headers cfg)])"
  by (simp add: post_comment_eq demo_post)

section \<open>The verdict and the status it posts\<close>

text \<open>
  C1. For every review text: if it contains the literal substring
  \<open>U+26A0 U+FE0F **REQUEST CHANGES**\<close> (whether or not it also contains
  \<open>U+2705 **APPROVE**\<close>), the verdict is ChangesRequested; if it does not contain that
  substring but contains the APPROVE marker, the verdict is Approved; if it contains
  neither, the verdict is Inconclusive. The verdict depends on the text alone, through
  substring search, and REQUEST CHANGES is tested first. In \<open>run\<close> the verdict is the
  branch taken on lines 109 to 117, seen in the state of the status it posts: a run that
  comes to that point with the review text posts \<open>failure\<close>, \<open>success\<close> or \<open>error\<close>
  accordingly.
\<close>

theorem verdict_by_markers:
  assumes "pr_details cfg = (Next (pr, diff_url, comments_url, statuses_url), [])"
    and "review_inputs w cfg pr diff_url = (Next (d, title, login), t)"
    and "analyze_code_with_gemini w d title login = (Next review, ta)"
    and "post_comment w cfg comments_url review = (Next (), tc)"
  shows "\<exists>state description.
           run w cfg =
             (fst (update_pr_status w cfg statuses_url state description),
              t @ ta @ tc @
              [HttpPost statuses_url
                 [(ascii ''state'', JStr state),
                  (ascii ''target_url'',
                     (case environ w (ascii ''KESTRA_EXECUTION_URL'') of None \<Rightarrow> JNull | Some u \<Rightarrow> JStr u)),
                  (ascii ''description'', JStr description),
                  (ascii ''context'', JStr (ascii ''OS-Maintainer / AI-Reviewer''))]
                 (json_headers cfg)])
         \<and> ((\<exists>ps ss. review = ps @ REQUEST_CHANGES @ ss)
              \<longrightarrow> classify review = ChangesRequested \<and> state = ascii ''failure'')
         \<and> (\<not> (\<exists>ps ss. review = ps @ REQUEST_CHANGES @ ss) \<and> (\<exists>ps ss. review = ps @ APPROVE @ ss)
              \<longrightarrow> classify review = Approved \<and> state = ascii ''success'')
         \<and> (\<not> (\<exists>ps ss. review = ps @ REQUEST_CHANGES @ ss) \<and> \<not> (\<exists>ps ss. review = ps @ APPROVE @ ss)
              \<longrightarrow> classify review = Inconclusive \<and> state = ascii ''error'')"
proof -
  have r: "run w cfg =
      (fst (update_pr_status w cfg statuses_url (fst (status_of (classify review)))
              (snd (status_of (classify review)))),
       t @ ta @ tc @ [HttpPost statuses_url
          (status_data w (fst (status_of (classify review))) (snd (status_of (classify review))))
          (json_headers cfg)])"
    using assms by (simp add: run_stages update_pr_status_trace)
  show ?thesis
    unfolding r status_data_def
    by (rule exI [of _ "fst (status_of (classify review))"],
        rule exI [of _ "snd (status_of (classify review))"])
       (simp add: classify_def sublist_def)
qed

text \<open>The concrete pull request with a review holding both markers, one with APPROVE
  only, one with neither: the states posted are \<open>failure\<close>, \<open>success\<close>, \<open>error\<close>.\<close>

theorem verdict_by_markers_witness:
  "(\<exists>description. snd (run (demo_world demo_opened 200 demo_diff (Inr (APPROVE @ REQUEST_CHANGES)))
            (demo_config demo_opened)) =
       [HttpGet (JStr (ascii ''https://h/pr/1.diff'')) (diff_headers (demo_config demo_opened)),
        GenerateContent (make_prompt (ascii ''dev'') (ascii ''Fix'') demo_diff),
        HttpPost (JStr (ascii ''https://h/pr/1/comments''))
          [(ascii ''body'', JStr ((APPROVE @ REQUEST_CHANGES) @ attribution))]
          (json_headers (demo_config demo_opened)),
        HttpPost (JStr (ascii ''https://h/statuses/abc''))
          [(ascii ''state'', JStr (ascii ''failure'')),
           (ascii ''target_url'', JNull),
           (ascii ''description'', JStr description),
           (ascii ''context'', JStr (ascii ''OS-Maintainer / AI-Reviewer''))]
          (json_headers (demo_config demo_opened))])
   \<and> (\<exists>description. snd (run (demo_world demo_opened 200 demo_diff (Inr (ascii ''Fine. '' @ APPROVE)))
            (demo_config demo_opened)) =
       [HttpGet (JStr (ascii ''https://h/pr/1.diff'')) (diff_headers (demo_config demo_opened)),
        GenerateContent (make_prompt (ascii ''dev'') (ascii ''Fix'') demo_diff),
        HttpPost (JStr (ascii ''https://h/pr/1/comments''))
          [(ascii ''body'', JStr ((ascii ''Fine. '' @ APPROVE) @ attribution))]
          (json_headers (demo_config demo_opened)),
        HttpPost (JStr (ascii ''https://h/statuses/abc''))
          [(ascii ''state'', JStr (ascii ''success'')),
           (ascii ''target_url'', JNull),
           (ascii ''description'', JStr description),
           (ascii ''context'', JStr (ascii ''OS-Maintainer / AI-Reviewer''))]
          (json_headers (demo_config demo_opened))])
   \<and> (\<exists>description. snd (run (demo_world demo_opened 200 demo_diff (Inr (ascii ''I cannot tell.'')))
            (demo_config demo_opened)) =
       [HttpGet (JStr (ascii ''https://h/pr/1.diff'')) (diff_headers (demo_config demo_opened)),
        GenerateContent (make_prompt (ascii ''dev'') (ascii ''Fix'') demo_diff),
        HttpPost (JStr (ascii ''https://h/pr/1/comments''))
          [(ascii ''body'', JStr (ascii ''I cannot tell.'' @ attribution))]
          (json_headers (demo_config demo_opened)),
        HttpPost (JStr (ascii ''https://h/statuses/abc''))
          [(ascii ''state'', JStr (ascii ''error'')),
           (ascii ''target_url'', JNull),
           (ascii ''description'', JStr description),
           (ascii ''context'', JStr (ascii ''OS-Maintainer / AI-Reviewer''))]
          (json_headers (demo_config demo_opened))])"
proof -
  have an: "analyze_code_with_gemini (demo_world demo_opened 200 demo_diff (Inr r)) demo_diff
      (JStr (ascii ''Fix'')) (JStr (ascii ''dev'')) =
      (Next r, [GenerateContent (make_prompt (ascii ''dev'') (ascii ''Fix'') demo_diff)])" for r
    by (simp add: demo_analyze)
  have 1: "\<exists>ps ss. APPROVE @ REQUEST_CHANGES = ps @ REQUEST_CHANGES @ ss"
    by (rule exI [of _ APPROVE], rule exI [of _ "[]"]) simp
  have 2: "\<not> (\<exists>ps ss. ascii ''Fine. '' @ APPROVE = ps @ REQUEST_CHANGES @ ss)"
    unfolding sublist_def [symmetric]
    by (simp add: REQUEST_CHANGES_def APPROVE_def ascii_def sublist_code(3))
  have 3: "\<exists>ps ss. ascii ''Fine. '' @ APPROVE = ps @ APPROVE @ ss"
    by (rule exI [of _ "ascii ''Fine. ''"], rule exI [of _ "[]"]) simp
  have 4: "\<not> (\<exists>ps ss. ascii ''I cannot tell.'' = ps @ REQUEST_CHANGES @ ss)"
    unfolding sublist_def [symmetric]
    by (simp add: REQUEST_CHANGES_def ascii_def sublist_code(3))
  have 5: "\<not> (\<exists>ps ss. ascii ''I cannot tell.'' = ps @ APPROVE @ ss)"
    unfolding sublist_def [symmetric]
    by (simp add: APPROVE_def ascii_def sublist_code(3))
  have snd_of: "snd x = b" if "x = (a, b)" for x :: "unit eff" and a b
    using that by simp
  from verdict_by_markers [OF demo_opened_details demo_inputs an demo_post_comment,
        of "APPROVE @ REQUEST_CHANGES"] 1
  have A: "\<exists>description. snd (run (demo_world demo_opened 200 demo_diff
            (Inr (APPROVE @ REQUEST_CHANGES))) (demo_config demo_opened)) =
       [HttpGet (JStr (ascii ''https://h/pr/1.diff'')) (diff_headers (demo_config demo_opened)),
        GenerateContent (make_prompt (ascii ''dev'') (ascii ''Fix'') demo_diff),
        HttpPost (JStr (ascii ''https://h/pr/1/comments''))
          [(ascii ''body'', JStr ((APPROVE @ REQUEST_CHANGES) @ attribution))]
          (json_headers (demo_config demo_opened)),
        HttpPost (JStr (ascii ''https://h/statuses/abc''))
          [(ascii ''state'', JStr (ascii ''failure'')),
           (ascii ''target_url'', JNull),
           (ascii ''description'', JStr description),
           (ascii ''context'', JStr (ascii ''OS-Maintainer / AI-Reviewer''))]
          (json_headers (demo_config demo_opened))]"
    by (auto simp add: demo_kestra dest!: snd_of)
  from verdict_by_markers [OF demo_opened_details demo_inputs an demo_post_comment,
        of "ascii ''Fine. '' @ APPROVE"] 2 3
  have B: "\<exists>description. snd (run (demo_world demo_opened 200 demo_diff
            (Inr (ascii ''Fine. '' @ APPROVE))) (demo_config demo_opened)) =
       [HttpGet (JStr (ascii ''https://h/pr/1.diff'')) (diff_headers (demo_config demo_opened)),
        GenerateContent (make_prompt (ascii ''dev'') (ascii ''Fix'') demo_diff),
        HttpPost (JStr (ascii ''https://h/pr/1/comments''))
          [(ascii ''body'', JStr ((ascii ''Fine. '' @ APPROVE) @ attribution))]
          (json_headers (demo_config demo_opened)),
        HttpPost (JStr (ascii ''https://h/statuses/abc''))
          [(ascii ''state'', JStr (ascii ''success'')),
           (ascii ''target_url'', JNull),
           (ascii ''description'', JStr description),
           (ascii ''context'', JStr (ascii ''OS-Maintainer / AI-Reviewer''))]
          (json_headers (demo_config demo_opened))]"
    by (auto simp add: demo_kestra dest!: snd_of)
  from verdict_by_markers [OF demo_opened_details demo_inputs an demo_post_comment,
        of "ascii ''I cannot tell.''"] 4 5
  have C: "\<exists>description. snd (run (demo_world demo_opened 200 demo_diff
            (Inr (ascii ''I cannot tell.''))) (demo_config demo_opened)) =
       [HttpGet (JStr (ascii ''https://h/pr/1.diff'')) (diff_headers (demo_config demo_opened)),
        GenerateContent (make_prompt (ascii ''dev'') (ascii ''Fix'') demo_diff),
        HttpPost (JStr (ascii ''https://h/pr/1/comments''))
          [(ascii ''body'', JStr (ascii ''I cannot tell.'' @ attribution))]
          (json_headers (demo_config demo_opened)),
        HttpPost (JStr (ascii ''https://h/statuses/abc''))
          [(ascii ''state'', JStr (ascii ''error'')),
           (ascii ''target_url'', JNull),
           (ascii ''description'', JStr description),
           (ascii ''context'', JStr (ascii ''OS-Maintainer / AI-Reviewer''))]
          (json_headers (demo_config demo_opened))]"
    by (auto simp add: demo_kestra dest!: snd_of)
  from A B C show ?thesis by (intro conjI)
qed

text \<open>
  C2. The mapping from verdict to posted status is total and deterministic: a run that
  reaches the status-reporting step (the event passed the filter, a diff was fetched and
  reviewed, the comment POST came back) posts exactly one status, to the statuses
  endpoint of the pull request: state \<open>failure\<close> with \<open>AI Review failed: Changes
  Requested.\<close> for ChangesRequested, \<open>success\<close> with \<open>AI Review passed successfully.\<close>
  for Approved, \<open>error\<close> with \<open>AI Review was inconclusive.\<close> for Inconclusive. The
  JSON of that POST is written out: state, target URL, description and the fixed context.
\<close>

theorem status_by_verdict:
  assumes "pr_details cfg = (Next (pr, diff_url, comments_url, statuses_url), [])"
    and "review_inputs w cfg pr diff_url = (Next (d, title, login), t)"
    and "analyze_code_with_gemini w d title login = (Next review, ta)"
    and "post_comment w cfg comments_url review = (Next (), tc)"
  shows "\<exists>state description prompt.
           snd (run w cfg) =
             [HttpGet diff_url (diff_headers cfg),
              GenerateContent prompt,
              HttpPost comments_url [(ascii ''body'', JStr (review @ attribution))] (json_headers cfg),
              HttpPost statuses_url
                [(ascii ''state'', JStr state),
                 (ascii ''target_url'',
                    (case environ w (ascii ''KESTRA_EXECUTION_URL'') of None \<Rightarrow> JNull | Some u \<Rightarrow> JStr u)),
                 (ascii ''description'', JStr description),
                 (ascii ''context'', JStr (ascii ''OS-Maintainer / AI-Reviewer''))]
                (json_headers cfg)]
         \<and> (state, description) =
             (case classify review of
                ChangesRequested \<Rightarrow> (ascii ''failure'', ascii ''AI Review failed: Changes Requested.'')
              | Approved \<Rightarrow> (ascii ''success'', ascii ''AI Review passed successfully.'')
              | Inconclusive \<Rightarrow> (ascii ''error'', ascii ''AI Review was inconclusive.''))"
proof -
  have t: "t = [HttpGet diff_url (diff_headers cfg)]"
    using review_inputs_trace [of w cfg pr diff_url] assms(2) by simp
  obtain prompt where ta: "ta = [GenerateContent prompt]"
    using assms(3) by (auto simp add: analyze_eq)
  have tc: "tc = [HttpPost comments_url [(ascii ''body'', JStr (review @ attribution))] (json_headers cfg)]"
    using post_comment_trace [of w cfg comments_url review] assms(4) by simp
  show ?thesis
    using run_reported [OF assms] t ta tc
    by (cases "classify review") (simp_all add: status_data_def)
qed

text \<open>The concrete pull request with a review that approves.\<close>

theorem status_by_verdict_witness:
  "\<exists>prompt.
     snd (run (demo_world demo_opened 200 demo_diff (Inr (ascii ''Fine. '' @ APPROVE)))
            (demo_config demo_opened)) =
       [HttpGet (JStr (ascii ''https://h/pr/1.diff'')) (diff_headers (demo_config demo_opened)),
        GenerateContent prompt,
        HttpPost (JStr (ascii ''https://h/pr/1/comments''))
          [(ascii ''body'', JStr ((ascii ''Fine. '' @ APPROVE) @ attribution))]
          (json_headers (demo_config demo_opened)),
        HttpPost (JStr (ascii ''https://h/statuses/abc''))
          [(ascii ''state'', JStr (ascii ''success'')),
           (ascii ''target_url'', JNull),
           (ascii ''description'', JStr (ascii ''AI Review passed successfully.'')),
           (ascii ''context'', JStr (ascii ''OS-Maintainer / AI-Reviewer''))]
          (json_headers (demo_config demo_opened))]"
proof -
  let ?w = "demo_world demo_opened 200 demo_diff (Inr (ascii ''Fine. '' @ APPROVE))"
  have an: "analyze_code_with_gemini ?w demo_diff (JStr (ascii ''Fix'')) (JStr (ascii ''dev'')) =
      (Next (ascii ''Fine. '' @ APPROVE),
       [GenerateContent (make_prompt (ascii ''dev'') (ascii ''Fix'') demo_diff)])"
    by (simp add: demo_analyze)
  show ?thesis
    using status_by_verdict [OF demo_opened_details demo_inputs an demo_post_comment]
    by (simp add: demo_review_approved demo_kestra)
qed

section \<open>The prompt\<close>

text \<open>
  C3. For every diff text of length L: if L is at most 30000, the prompt sent to the
  generation service contains the diff text unmodified; if L exceeds 30000, the prompt
  contains exactly the first 30000 characters of the diff followed by the literal
  truncation notice, a line feed and \<open>... (Diff truncated)\<close>. In both cases the text
  stands between \<open>```diff \<close> and the closing fence of the f-string.
\<close>

theorem prompt_truncation:
  "(length diff_text \<le> 30000 \<longrightarrow>
      snd (analyze_code_with_gemini w diff_text pr_title user) =
        [GenerateContent (prompt_head @ fstr w user @ ascii ''. Title: '' @ fstr w pr_title
           @ ascii ''. Code: '' @ [96, 96, 96] @ ascii ''diff ''
           @ diff_text @ prompt_tail)])
   \<and> (length diff_text > 30000 \<longrightarrow>
      snd (analyze_code_with_gemini w diff_text pr_title user) =
        [GenerateContent (prompt_head @ fstr w user @ ascii ''. Title: '' @ fstr w pr_title
           @ ascii ''. Code: '' @ [96, 96, 96] @ ascii ''diff ''
           @ (take 30000 diff_text @ [10] @ ascii ''... (Diff truncated)'') @ prompt_tail)]
      \<and> length (take 30000 diff_text) = 30000)"
  by (simp add: analyze_eq make_prompt_def truncation_notice_def)

text \<open>A diff of 30001 plus signs is cut to 30000; a diff of 30000 is sent whole.\<close>

theorem prompt_truncation_witness:
  "snd (analyze_code_with_gemini (demo_world demo_opened 200 (replicate 30001 43) (Inr []))
          (replicate 30001 43) (JStr (ascii ''Fix'')) (JStr (ascii ''dev''))) =
     [GenerateContent (prompt_head @ ascii ''dev'' @ ascii ''. Title: '' @ ascii ''Fix''
        @ ascii ''. Code: '' @ [96, 96, 96] @ ascii ''diff ''
        @ (replicate 30000 43 @ [10] @ ascii ''... (Diff truncated)'') @ prompt_tail)]
   \<and> snd (analyze_code_with_gemini (demo_world demo_opened 200 (replicate 30000 43) (Inr []))
          (replicate 30000 43) (JStr (ascii ''Fix'')) (JStr (ascii ''dev''))) =
     [GenerateContent (prompt_head @ ascii ''dev'' @ ascii ''. Title: '' @ ascii ''Fix''
        @ ascii ''. Code: '' @ [96, 96, 96] @ ascii ''diff ''
        @ replicate 30000 43 @ prompt_tail)]"
  using prompt_truncation [of "replicate 30001 43"
      "demo_world demo_opened 200 (replicate 30001 43) (Inr [])"
      "JStr (ascii ''Fix'')" "JStr (ascii ''dev'')"]
    prompt_truncation [of "replicate 30000 43"
      "demo_world demo_opened 200 (replicate 30000 43) (Inr [])"
      "JStr (ascii ''Fix'')" "JStr (ascii ''dev'')"]
  by (simp add: fstr_def)

section \<open>Runs that end early\<close>




text \<open>
  C5. For every diff-fetch response with HTTP status other than 200, \<open>get_pr_diff\<close>
  returns absence and the run ends (exit status 0) having made the diff request only:
  no model call, no comment, no status. On status 200 \<open>get_pr_diff\<close> returns the
  response body as text.
\<close>

theorem no_diff_on_bad_status:
  assumes "requests_get w diff_url (diff_headers cfg) = Inr resp"
  shows "(status_code resp = 200 \<longrightarrow>
            get_pr_diff w cfg diff_url = (Next (Some (text_of resp)), [HttpGet diff_url (diff_headers cfg)]))
       \<and> (status_code resp \<noteq> 200 \<longrightarrow>
            get_pr_diff w cfg diff_url = (Next None, [HttpGet diff_url (diff_headers cfg)])
          \<and> (\<forall>pr comments_url statuses_url.
                load_configuration w = Inr cfg
              \<and> pr_details cfg = (Next (pr, diff_url, comments_url, statuses_url), [])
              \<longrightarrow> run w cfg = (Return, [HttpGet diff_url (diff_headers cfg)])
                \<and> main w = (Exit 0, [HttpGet diff_url (diff_headers cfg)])))"
proof -
  have "run w cfg = (Return, [HttpGet diff_url (diff_headers cfg)])"
    if "status_code resp \<noteq> 200" "pr_details cfg = (Next (pr, diff_url, cu, su), [])" for pr cu su
    using that review_inputs_no_diff [OF assms, of pr] by (simp add: run_stages)
  then show ?thesis
    using assms main_of_run(1) by (auto simp add: get_pr_diff_eq)
qed

text \<open>The concrete pull request when the host answers 404, and \<open>get_pr_diff\<close> on 200.\<close>

theorem no_diff_on_bad_status_witness:
  "main (demo_world demo_opened 404 demo_diff (Inr [])) =
     (Exit 0, [HttpGet (JStr (ascii ''https://h/pr/1.diff'')) (diff_headers (demo_config demo_opened))])
   \<and> get_pr_diff (demo_world demo_opened 404 demo_diff (Inr [])) (demo_config demo_opened)
        (JStr (ascii ''https://h/pr/1.diff'')) =
     (Next None, [HttpGet (JStr (ascii ''https://h/pr/1.diff'')) (diff_headers (demo_config demo_opened))])
   \<and> get_pr_diff (demo_world demo_opened 200 demo_diff (Inr [])) (demo_config demo_opened)
        (JStr (ascii ''https://h/pr/1.diff'')) =
     (Next (Some demo_diff),
      [HttpGet (JStr (ascii ''https://h/pr/1.diff'')) (diff_headers (demo_config demo_opened))])"
proof -
  have g404: "requests_get (demo_world demo_opened 404 demo_diff (Inr []))
      (JStr (ascii ''https://h/pr/1.diff'')) (diff_headers (demo_config demo_opened)) =
      Inr \<lparr>status_code = 404, text_of = demo_diff\<rparr>"
    by (rule demo_get)
  have g200: "requests_get (demo_world demo_opened 200 demo_diff (Inr []))
      (JStr (ascii ''https://h/pr/1.diff'')) (diff_headers (demo_config demo_opened)) =
      Inr \<lparr>status_code = 200, text_of = demo_diff\<rparr>"
    by (rule demo_get)
  show ?thesis
    using no_diff_on_bad_status [OF g404] no_diff_on_bad_status [OF g200]
      demo_load [of demo_opened 404 demo_diff "Inr []"] demo_opened_details
    by simp
qed

text \<open>
  C9. Even when the diff fetch returns HTTP 200, if the returned body is empty or
  consists only of whitespace, the run ends (exit status 0) having made the diff
  request only: no model call, no comment, no status.
\<close>

theorem blank_diff_is_skipped:
  assumes "load_configuration w = Inr cfg"
    and "pr_details cfg = (Next (pr, diff_url, comments_url, statuses_url), [])"
    and "requests_get w diff_url (diff_headers cfg) = Inr resp"
    and "status_code resp = 200"
    and "\<forall>c\<in>set (text_of resp). py_isspace c"
  shows "run w cfg = (Return, [HttpGet diff_url (diff_headers cfg)])
       \<and> main w = (Exit 0, [HttpGet diff_url (diff_headers cfg)])"
proof -
  have "run w cfg = (Return, [HttpGet diff_url (diff_headers cfg)])"
    using assms(2) review_inputs_no_diff [OF assms(3), of pr] assms(5) by (simp add: run_stages)
  then show ?thesis
    using main_of_run(1) [OF assms(1)] by simp
qed

text \<open>A body of a space, a line feed and a tab; and an empty body.\<close>

theorem blank_diff_is_skipped_witness:
  "main (demo_world demo_opened 200 [32, 10, 9] (Inr [])) =
     (Exit 0, [HttpGet (JStr (ascii ''https://h/pr/1.diff'')) (diff_headers (demo_config demo_opened))])
   \<and> main (demo_world demo_opened 200 [] (Inr [])) =
     (Exit 0, [HttpGet (JStr (ascii ''https://h/pr/1.diff'')) (diff_headers (demo_config demo_opened))])"
proof -
  have g: "requests_get (demo_world demo_opened 200 body (Inr []))
      (JStr (ascii ''https://h/pr/1.diff'')) (diff_headers (demo_config demo_opened)) =
      Inr \<lparr>status_code = 200, text_of = body\<rparr>" for body
    by (rule demo_get)
  have 1: "\<forall>c\<in>set (text_of \<lparr>status_code = 200, text_of = [32, 10, 9]\<rparr>). py_isspace c"
    by (simp add: py_isspace_def)
  have 2: "\<forall>c\<in>set (text_of \<lparr>status_code = 200, text_of = []\<rparr>). py_isspace c"
    by simp
  show ?thesis
    using blank_diff_is_skipped [OF demo_load demo_opened_details g _ 1]
      blank_diff_is_skipped [OF demo_load demo_opened_details g _ 2]
    by simp
qed

text \<open>
  C10. For every event that passes the filter (it has \<open>pull_request\<close> and an allowed
  \<open>action\<close>) but whose \<open>pull_request\<close> record lacks any of the keys \<open>diff_url\<close>,
  \<open>comments_url\<close>, \<open>statuses_url\<close>, the run aborts with an uncaught \<open>KeyError\<close> for
  such a key before any diff fetch, model call, comment or status POST: the process
  ends with exit status 1, not as a silent skip.
\<close>

theorem missing_endpoint_key_raises:
  assumes "load_configuration w = Inr cfg"
    and "payload cfg = JObj ev"
    and "map_of ev (ascii ''pull_request'') = Some (JObj pr)"
    and "map_of ev (ascii ''action'') \<in> {Some (JStr (ascii ''opened'')),
              Some (JStr (ascii ''reopened'')), Some (JStr (ascii ''synchronize''))}"
    and "k \<in> {ascii ''diff_url'', ascii ''comments_url'', ascii ''statuses_url''}"
    and "map_of pr k = None"
  shows "\<exists>k'\<in>{ascii ''diff_url'', ascii ''comments_url'', ascii ''statuses_url''}.
           map_of pr k' = None
         \<and> run w cfg = (Raise (KeyError k'), [])
         \<and> main w = (Uncaught (KeyError k'), [])
         \<and> exit_status (fst (main w)) = 1"
proof -
  have "\<exists>k'\<in>{ascii ''diff_url'', ascii ''comments_url'', ascii ''statuses_url''}.
           map_of pr k' = None \<and> run w cfg = (Raise (KeyError k'), [])"
    using assms(2-6)
    by (auto simp add: run_def allowed_actions_def bind_lift split: option.splits)
  then show ?thesis
    using main_of_run(2) [OF assms(1)] by fastforce
qed

text \<open>A \<open>synchronize\<close> event whose pull request has no \<open>comments_url\<close>.\<close>

theorem missing_endpoint_key_raises_witness:
  "main (demo_world demo_no_comments_url 200 demo_diff (Inr [])) =
     (Uncaught (KeyError (ascii ''comments_url'')), [])"
proof -
  let ?pr = "[(ascii ''diff_url'', JStr (ascii ''https://h/pr/1.diff'')),
              (ascii ''statuses_url'', JStr (ascii ''https://h/statuses/abc''))]"
  have p: "payload (demo_config demo_no_comments_url) =
      JObj [(ascii ''action'', JStr (ascii ''synchronize'')), (ascii ''pull_request'', JObj ?pr)]"
    by (simp add: demo_config_def demo_no_comments_url_def)
  have "\<exists>k'\<in>{ascii ''diff_url'', ascii ''comments_url'', ascii ''statuses_url''}.
           map_of ?pr k' = None
         \<and> run (demo_world demo_no_comments_url 200 demo_diff (Inr []))
               (demo_config demo_no_comments_url) = (Raise (KeyError k'), [])
         \<and> main (demo_world demo_no_comments_url 200 demo_diff (Inr [])) = (Uncaught (KeyError k'), [])
         \<and> exit_status (fst (main (demo_world demo_no_comments_url 200 demo_diff (Inr [])))) = 1"
    by (rule missing_endpoint_key_raises [OF demo_load p, of ?pr "ascii ''comments_url''"])
      simp_all
  then show ?thesis
    by auto
qed

section \<open>Configuration errors\<close>

text \<open>
  C8. For every invocation where the event payload is missing (unset or empty), the
  payload is unparseable as JSON, or either required credential (source-control token
  or generation-service API key) is absent (unset or empty), the process exits with
  status 1 before any network activity of the pipeline: no diff fetch, no model call,
  no comment, no status.
\<close>

theorem configuration_errors_exit:
  assumes "environ w (ascii ''GITHUB_PAYLOAD'') \<in> {None, Some []}
         \<or> (\<exists>payload_json. environ w (ascii ''GITHUB_PAYLOAD'') = Some payload_json
               \<and> json_loads w payload_json = None)
         \<or> environ w (ascii ''GITHUB_TOKEN'') \<in> {None, Some []}
         \<or> environ w (ascii ''GOOGLE_API_KEY'') \<in> {None, Some []}"
  shows "main w = (Exit 1, []) \<and> exit_status (fst (main w)) \<noteq> 0"
proof -
  have "load_configuration w = Inl 1"
    using assms by (auto simp add: load_configuration_def falsy_def Let_def split: option.splits)
  then show ?thesis by (simp add: main_def)
qed

text \<open>An empty environment; a payload that does not parse; a missing API key.\<close>

theorem configuration_errors_exit_witness:
  "main (demo_world demo_opened 200 demo_diff (Inr [])\<lparr>environ := Map.empty\<rparr>) = (Exit 1, [])
   \<and> main (demo_world demo_opened 200 demo_diff (Inr [])\<lparr>json_loads := \<lambda>s. None\<rparr>) = (Exit 1, [])
   \<and> main (demo_world demo_opened 200 demo_diff (Inr [])
        \<lparr>environ := map_of [(ascii ''GITHUB_PAYLOAD'', ascii ''<event>''),
                            (ascii ''GITHUB_TOKEN'', ascii ''t0'')]\<rparr>) = (Exit 1, [])"
  using configuration_errors_exit
      [of "demo_world demo_opened 200 demo_diff (Inr [])\<lparr>environ := Map.empty\<rparr>"]
    configuration_errors_exit
      [of "demo_world demo_opened 200 demo_diff (Inr [])\<lparr>json_loads := \<lambda>s. None\<rparr>"]
    configuration_errors_exit
      [of "demo_world demo_opened 200 demo_diff (Inr [])
        \<lparr>environ := map_of [(ascii ''GITHUB_PAYLOAD'', ascii ''<event>''),
                            (ascii ''GITHUB_TOKEN'', ascii ''t0'')]\<rparr>"]
  by (simp add: demo_world_def)

section \<open>Reporting\<close>

text \<open>
  C6, as amended. For every failure raised by the generation service, the error is not
  propagated: \<open>analyze_code_with_gemini\<close> returns a synthesized review text that opens
  with the \<open>AI Error\<close> marker and embeds the failure's description, and the run posts
  that text as a comment. When the comment POST comes back and the description contains
  neither verdict marker, the run then sets one status, whose JSON has state \<open>error\<close>
  and description \<open>AI Review was inconclusive.\<close>
\<close>

theorem model_failure_reported:
  assumes "generate_content w (make_prompt (fstr w login) (fstr w title)
             (if 30000 < length d then take 30000 d @ truncation_notice else d)) = Inl e"
  shows "fst (analyze_code_with_gemini w d title login) = Next (ai_error e)
       \<and> ai_error e = [0x26A0, 0xFE0F]
           @ ascii '' **AI Error:** Could not analyze code. The model failed to respond. (''
           @ e @ ascii '')''
       \<and> (\<forall>cfg pr diff_url comments_url statuses_url t.
             pr_details cfg = (Next (pr, diff_url, comments_url, statuses_url), [])
           \<and> review_inputs w cfg pr diff_url = (Next (d, title, login), t)
           \<longrightarrow> (\<exists>prompt rest.
                 snd (run w cfg) =
                   [HttpGet diff_url (diff_headers cfg),
                    GenerateContent prompt,
                    HttpPost comments_url [(ascii ''body'', JStr (ai_error e @ attribution))]
                      (json_headers cfg)] @ rest
               \<and> (requests_post w comments_url [(ascii ''body'', JStr (ai_error e @ attribution))]
                     (json_headers cfg) = None
                   \<and> \<not> (\<exists>ps ss. e = ps @ REQUEST_CHANGES @ ss)
                   \<and> \<not> (\<exists>ps ss. e = ps @ APPROVE @ ss)
                   \<longrightarrow> rest = [HttpPost statuses_url
                                 [(ascii ''state'', JStr (ascii ''error'')),
                                  (ascii ''target_url'',
                                     (case environ w (ascii ''KESTRA_EXECUTION_URL'') of None \<Rightarrow> JNull | Some u \<Rightarrow> JStr u)),
                                  (ascii ''description'', JStr (ascii ''AI Review was inconclusive.'')),
                                  (ascii ''context'', JStr (ascii ''OS-Maintainer / AI-Reviewer''))]
                                 (json_headers cfg)])))"
proof -
  let ?p = "make_prompt (fstr w login) (fstr w title)
             (if 30000 < length d then take 30000 d @ truncation_notice else d)"
  have an: "analyze_code_with_gemini w d title login = (Next (ai_error e), [GenerateContent ?p])"
    using assms by (simp add: analyze_eq)
  have inc: "classify (ai_error e) = Inconclusive"
    if "\<not> (\<exists>ps ss. e = ps @ REQUEST_CHANGES @ ss)" "\<not> (\<exists>ps ss. e = ps @ APPROVE @ ss)"
  proof -
    from that have "\<not> sublist REQUEST_CHANGES e" "\<not> sublist APPROVE e"
      by (simp_all add: sublist_def)
    then show ?thesis
      by (simp add: classify_def REQUEST_CHANGES_ai_error APPROVE_ai_error)
  qed
  have "\<exists>prompt rest.
          snd (run w cfg) =
            [HttpGet du (diff_headers cfg), GenerateContent prompt,
             HttpPost cu [(ascii ''body'', JStr (ai_error e @ attribution))] (json_headers cfg)] @ rest
        \<and> (requests_post w cu [(ascii ''body'', JStr (ai_error e @ attribution))]
              (json_headers cfg) = None
            \<and> \<not> (\<exists>ps ss. e = ps @ REQUEST_CHANGES @ ss)
            \<and> \<not> (\<exists>ps ss. e = ps @ APPROVE @ ss)
            \<longrightarrow> rest = [HttpPost su
                          [(ascii ''state'', JStr (ascii ''error'')),
                           (ascii ''target_url'',
                              (case environ w (ascii ''KESTRA_EXECUTION_URL'') of None \<Rightarrow> JNull | Some u \<Rightarrow> JStr u)),
                           (ascii ''description'', JStr (ascii ''AI Review was inconclusive.'')),
                           (ascii ''context'', JStr (ascii ''OS-Maintainer / AI-Reviewer''))]
                          (json_headers cfg)])"
    if pd: "pr_details cfg = (Next (pr, du, cu, su), [])"
      and ri: "review_inputs w cfg pr du = (Next (d, title, login), t)" for cfg pr du cu su t
  proof -
    have t: "t = [HttpGet du (diff_headers cfg)]"
      using review_inputs_trace [of w cfg pr du] ri by simp
    show ?thesis
      using run_commented [OF pd ri an] inc unfolding t
      by (auto simp add: status_data_def split: option.splits)
  qed
  then show ?thesis
    using an by (simp add: ai_error_def)
qed

text \<open>The concrete pull request when the service fails with \<open>quota exceeded\<close>.\<close>

theorem model_failure_reported_witness:
  "\<exists>prompt.
     snd (run (demo_world demo_opened 200 demo_diff (Inl (ascii ''quota exceeded'')))
            (demo_config demo_opened)) =
       [HttpGet (JStr (ascii ''https://h/pr/1.diff'')) (diff_headers (demo_config demo_opened)),
        GenerateContent prompt,
        HttpPost (JStr (ascii ''https://h/pr/1/comments''))
          [(ascii ''body'', JStr (ai_error (ascii ''quota exceeded'') @ attribution))]
          (json_headers (demo_config demo_opened)),
        HttpPost (JStr (ascii ''https://h/statuses/abc''))
          [(ascii ''state'', JStr (ascii ''error'')),
           (ascii ''target_url'', JNull),
           (ascii ''description'', JStr (ascii ''AI Review was inconclusive.'')),
           (ascii ''context'', JStr (ascii ''OS-Maintainer / AI-Reviewer''))]
          (json_headers (demo_config demo_opened))]"
proof -
  let ?w = "demo_world demo_opened 200 demo_diff (Inl (ascii ''quota exceeded''))"
  have g: "generate_content ?w (make_prompt (fstr ?w (JStr (ascii ''dev'')))
             (fstr ?w (JStr (ascii ''Fix'')))
             (if 30000 < length demo_diff then take 30000 demo_diff @ truncation_notice
              else demo_diff)) = Inl (ascii ''quota exceeded'')"
    by (simp add: demo_world_def)
  have 1: "\<not> (\<exists>ps ss. ascii ''quota exceeded'' = ps @ REQUEST_CHANGES @ ss)"
    unfolding sublist_def [symmetric]
    by (simp add: REQUEST_CHANGES_def ascii_def sublist_code(3))
  have 2: "\<not> (\<exists>ps ss. ascii ''quota exceeded'' = ps @ APPROVE @ ss)"
    unfolding sublist_def [symmetric]
    by (simp add: APPROVE_def ascii_def sublist_code(3))
  show ?thesis
    using model_failure_reported [OF g] demo_opened_details
      demo_inputs [of demo_opened "Inl (ascii ''quota exceeded'')" "demo_config demo_opened"
        "JStr (ascii ''https://h/pr/1.diff'')"]
      demo_post [of demo_opened 200 demo_diff "Inl (ascii ''quota exceeded'')"]
      demo_kestra [of demo_opened 200 demo_diff "Inl (ascii ''quota exceeded'')"] 1 2
    by fastforce
qed

text \<open>
  C6 as stated fails twice. A failure whose description is the REQUEST CHANGES marker is
  classified like any review, and the status posted is \<open>failure\<close>, not \<open>error\<close>. And
  when the comment POST raises, the run stops there and no status is posted.
\<close>

theorem model_failure_status_counterexample:
  "generate_content (demo_world demo_opened 200 demo_diff (Inl REQUEST_CHANGES))
     (make_prompt (ascii ''dev'') (ascii ''Fix'') demo_diff) = Inl REQUEST_CHANGES
   \<and> main (demo_world demo_opened 200 demo_diff (Inl REQUEST_CHANGES)) =
      (Exit 0,
       [HttpGet (JStr (ascii ''https://h/pr/1.diff'')) (diff_headers (demo_config demo_opened)),
        GenerateContent (make_prompt (ascii ''dev'') (ascii ''Fix'') demo_diff),
        HttpPost (JStr (ascii ''https://h/pr/1/comments''))
          [(ascii ''body'', JStr (ai_error REQUEST_CHANGES @ attribution))]
          (json_headers (demo_config demo_opened)),
        HttpPost (JStr (ascii ''https://h/statuses/abc''))
          [(ascii ''state'', JStr (ascii ''failure'')),
           (ascii ''target_url'', JNull),
           (ascii ''description'', JStr (ascii ''AI Review failed: Changes Requested.'')),
           (ascii ''context'', JStr (ascii ''OS-Maintainer / AI-Reviewer''))]
          (json_headers (demo_config demo_opened))])
   \<and> ascii ''failure'' \<noteq> ascii ''error''
   \<and> generate_content (demo_world_post_fails (Inl (ascii ''quota exceeded'')))
     (make_prompt (ascii ''dev'') (ascii ''Fix'') demo_diff) = Inl (ascii ''quota exceeded'')
   \<and> main (demo_world_post_fails (Inl (ascii ''quota exceeded''))) =
      (Uncaught (RequestException (ascii ''connection reset'')),
       [HttpGet (JStr (ascii ''https://h/pr/1.diff'')) (diff_headers (demo_config demo_opened)),
        GenerateContent (make_prompt (ascii ''dev'') (ascii ''Fix'') demo_diff),
        HttpPost (JStr (ascii ''https://h/pr/1/comments''))
          [(ascii ''body'', JStr (ai_error (ascii ''quota exceeded'') @ attribution))]
          (json_headers (demo_config demo_opened))])"
proof -
  let ?w = "demo_world demo_opened 200 demo_diff (Inl REQUEST_CHANGES)"
  let ?v = "demo_world_post_fails (Inl (ascii ''quota exceeded''))"
  have an: "analyze_code_with_gemini ?w demo_diff (JStr (ascii ''Fix'')) (JStr (ascii ''dev'')) =
      (Next (ai_error REQUEST_CHANGES),
       [GenerateContent (make_prompt (ascii ''dev'') (ascii ''Fix'') demo_diff)])"
    by (simp add: demo_analyze)
  have cl: "classify (ai_error REQUEST_CHANGES) = ChangesRequested"
    by (simp add: classify_def REQUEST_CHANGES_ai_error)
  have po: "post_comment ?w (demo_config demo_opened) (JStr (ascii ''https://h/pr/1/comments''))
      (ai_error REQUEST_CHANGES) =
      (Next (), [HttpPost (JStr (ascii ''https://h/pr/1/comments''))
          [(ascii ''body'', JStr (ai_error REQUEST_CHANGES @ attribution))]
          (json_headers (demo_config demo_opened))])"
    by (simp add: post_comment_eq demo_post)
  have tr: "snd (run ?w (demo_config demo_opened)) =
       [HttpGet (JStr (ascii ''https://h/pr/1.diff'')) (diff_headers (demo_config demo_opened)),
        GenerateContent (make_prompt (ascii ''dev'') (ascii ''Fix'') demo_diff),
        HttpPost (JStr (ascii ''https://h/pr/1/comments''))
          [(ascii ''body'', JStr (ai_error REQUEST_CHANGES @ attribution))]
          (json_headers (demo_config demo_opened)),
        HttpPost (JStr (ascii ''https://h/statuses/abc''))
          [(ascii ''state'', JStr (ascii ''failure'')),
           (ascii ''target_url'', JNull),
           (ascii ''description'', JStr (ascii ''AI Review failed: Changes Requested.'')),
           (ascii ''context'', JStr (ascii ''OS-Maintainer / AI-Reviewer''))]
          (json_headers (demo_config demo_opened))]"
    using run_reported [OF demo_opened_details demo_inputs an po]
    by (simp add: cl status_data_def demo_kestra)
  have ex: "fst (run ?w (demo_config demo_opened)) \<noteq> Raise e" for e
    using demo_opened_details demo_inputs [of demo_opened "Inl REQUEST_CHANGES"
        "demo_config demo_opened" "JStr (ascii ''https://h/pr/1.diff'')"] an po
    by (simp add: run_stages update_pr_status_def Let_def demo_post)
  have 1: "main ?w = (Exit 0, snd (run ?w (demo_config demo_opened)))"
    using ex demo_load [of demo_opened 200 demo_diff "Inl REQUEST_CHANGES"]
    by (cases "run ?w (demo_config demo_opened)"; cases "fst (run ?w (demo_config demo_opened))")
       (simp_all add: main_def)
  have g1: "generate_content ?w (make_prompt (ascii ''dev'') (ascii ''Fix'') demo_diff) =
      Inl REQUEST_CHANGES"
    by (simp add: demo_world_def)
  have lv: "load_configuration ?v = Inr (demo_config demo_opened)"
    by (simp add: load_configuration_def demo_world_post_fails_def demo_world_def
        demo_config_def falsy_def)
  have rv: "review_inputs ?v (demo_config demo_opened) demo_pr (JStr (ascii ''https://h/pr/1.diff'')) =
      (Next (demo_diff, JStr (ascii ''Fix''), JStr (ascii ''dev'')),
       [HttpGet (JStr (ascii ''https://h/pr/1.diff'')) (diff_headers (demo_config demo_opened))])"
    using demo_diff_visible
    by (simp add: review_inputs_def get_pr_diff_eq demo_world_post_fails_def demo_world_def
        demo_pr_def py_strip_Nil_iff)
  have av: "analyze_code_with_gemini ?v demo_diff (JStr (ascii ''Fix'')) (JStr (ascii ''dev'')) =
      (Next (ai_error (ascii ''quota exceeded'')),
       [GenerateContent (make_prompt (ascii ''dev'') (ascii ''Fix'') demo_diff)])"
    by (simp add: analyze_eq demo_prompt) (simp add: demo_world_post_fails_def demo_world_def)
  have pv: "requests_post ?v u data h = Some (RequestException (ascii ''connection reset''))"
    for u data h
    by (simp add: demo_world_post_fails_def)
  have 2: "main ?v =
      (Uncaught (RequestException (ascii ''connection reset'')),
       [HttpGet (JStr (ascii ''https://h/pr/1.diff'')) (diff_headers (demo_config demo_opened)),
        GenerateContent (make_prompt (ascii ''dev'') (ascii ''Fix'') demo_diff),
        HttpPost (JStr (ascii ''https://h/pr/1/comments''))
          [(ascii ''body'', JStr (ai_error (ascii ''quota exceeded'') @ attribution))]
          (json_headers (demo_config demo_opened))])"
    using run_comment_raises [OF demo_opened_details rv av pv] main_of_run(2) [OF lv]
    by simp
  have g2: "generate_content ?v (make_prompt (ascii ''dev'') (ascii ''Fix'') demo_diff) =
      Inl (ascii ''quota exceeded'')"
    by (simp add: demo_world_post_fails_def demo_world_def)
  show ?thesis
    using 1 tr g1 2 g2 by simp
qed

text \<open>
  C7. For every run that posts a comment (a POST whose JSON has a \<open>body\<close> field), the
  run got a review text from \<open>analyze_code_with_gemini\<close>, the body of the comment POST
  equals that review text followed by the fixed attribution suffix, and the POST goes
  to the \<open>comments_url\<close> of the event's pull request.
\<close>

theorem comment_body_and_endpoint:
  assumes "HttpPost url data headers \<in> set (snd (run w cfg))"
    and "map_of data (ascii ''body'') \<noteq> None"
  shows "\<exists>pr diff_url statuses_url d title login t review ta.
           pr_details cfg = (Next (pr, diff_url, url, statuses_url), [])
         \<and> subscript (payload cfg) (ascii ''pull_request'') = Inr pr
         \<and> subscript pr (ascii ''comments_url'') = Inr url
         \<and> review_inputs w cfg pr diff_url = (Next (d, title, login), t)
         \<and> analyze_code_with_gemini w d title login = (Next review, ta)
         \<and> data = [(ascii ''body'', JStr (review @ [10, 10] @ ascii ''_'' @ [0x2014]
                       @ ascii '' Reviewed by OS-Maintainer Bot '' @ [0x1F916] @ ascii ''_''))]"
proof -
  obtain f0 where pd: "pr_details cfg = (f0, [])"
    using pr_details_trace [of cfg] by (cases "pr_details cfg") simp
  show ?thesis
  proof (cases f0)
    case (Next x)
    obtain pr du cu su where x: "x = (pr, du, cu, su)" by (cases x)
    note pd' = pd [unfolded Next x]
    obtain f1 where ri: "review_inputs w cfg pr du = (f1, [HttpGet du (diff_headers cfg)])"
      using review_inputs_trace [of w cfg pr du] by (cases "review_inputs w cfg pr du") simp
    show ?thesis
    proof (cases f1)
      case (Next y)
      obtain d title login where y: "y = (d, title, login)" by (cases y)
      note ri' = ri [unfolded Next y]
      obtain review ta where an: "analyze_code_with_gemini w d title login = (Next review, ta)"
        and ta: "\<forall>c\<in>set ta. \<exists>p. c = GenerateContent p"
        by (simp add: analyze_eq)
      from assms(1) run_commented [OF pd' ri' an] ta
      have "HttpPost url data headers =
              HttpPost cu [(ascii ''body'', JStr (review @ attribution))] (json_headers cfg)
          \<or> HttpPost url data headers =
              HttpPost su (status_data w (fst (status_of (classify review)))
                             (snd (status_of (classify review)))) (json_headers cfg)"
        by (auto split: option.splits)
      with assms(2) have "url = cu \<and> data = [(ascii ''body'', JStr (review @ attribution))]"
        by (auto simp add: status_data_no_body)
      with pd' ri' an pr_details_Next [OF pd'] show ?thesis
        unfolding attribution_def by blast
    next
      case Return
      with assms(1) pd' ri show ?thesis by (simp add: run_stages)
    next
      case (Raise e)
      with assms(1) pd' ri show ?thesis by (simp add: run_stages)
    qed
  next
    case Return
    with assms(1) pd show ?thesis by (simp add: run_stages)
  next
    case (Raise e)
    with assms(1) pd show ?thesis by (simp add: run_stages)
  qed
qed

text \<open>The comment of the concrete pull request with a review that approves.\<close>

theorem comment_body_and_endpoint_witness:
  "HttpPost (JStr (ascii ''https://h/pr/1/comments''))
     [(ascii ''body'', JStr ((ascii ''Fine. '' @ APPROVE) @ attribution))]
     (json_headers (demo_config demo_opened))
   \<in> set (snd (run (demo_world demo_opened 200 demo_diff (Inr (ascii ''Fine. '' @ APPROVE)))
                 (demo_config demo_opened)))
   \<and> (\<exists>pr diff_url statuses_url d title login t review ta.
         pr_details (demo_config demo_opened) =
           (Next (pr, diff_url, JStr (ascii ''https://h/pr/1/comments''), statuses_url), [])
       \<and> subscript (payload (demo_config demo_opened)) (ascii ''pull_request'') = Inr pr
       \<and> subscript pr (ascii ''comments_url'') = Inr (JStr (ascii ''https://h/pr/1/comments''))
       \<and> review_inputs (demo_world demo_opened 200 demo_diff (Inr (ascii ''Fine. '' @ APPROVE)))
           (demo_config demo_opened) pr diff_url = (Next (d, title, login), t)
       \<and> analyze_code_with_gemini
           (demo_world demo_opened 200 demo_diff (Inr (ascii ''Fine. '' @ APPROVE)))
           d title login = (Next review, ta)
       \<and> [(ascii ''body'', JStr ((ascii ''Fine. '' @ APPROVE) @ attribution))] =
           [(ascii ''body'', JStr (review @ [10, 10] @ ascii ''_'' @ [0x2014]
              @ ascii '' Reviewed by OS-Maintainer Bot '' @ [0x1F916] @ ascii ''_''))])"
proof -
  let ?w = "demo_world demo_opened 200 demo_diff (Inr (ascii ''Fine. '' @ APPROVE))"
  have an: "analyze_code_with_gemini ?w demo_diff (JStr (ascii ''Fix'')) (JStr (ascii ''dev'')) =
      (Next (ascii ''Fine. '' @ APPROVE),
       [GenerateContent (make_prompt (ascii ''dev'') (ascii ''Fix'') demo_diff)])"
    by (simp add: demo_analyze)
  have m: "HttpPost (JStr (ascii ''https://h/pr/1/comments''))
      [(ascii ''body'', JStr ((ascii ''Fine. '' @ APPROVE) @ attribution))]
      (json_headers (demo_config demo_opened))
    \<in> set (snd (run ?w (demo_config demo_opened)))"
    using run_commented [OF demo_opened_details demo_inputs an] by simp
  have b: "map_of [(ascii ''body'', JStr ((ascii ''Fine. '' @ APPROVE) @ attribution))]
      (ascii ''body'') \<noteq> None"
    by simp
  show ?thesis
    using comment_body_and_endpoint [OF m b] m by (intro conjI)
qed

end
